theory Spec2Isabelle
  imports Main
begin

section \<open>Values read from a manifest\<close>

text \<open>
  \<^verbatim>\<open>parse\<close> decodes \<^verbatim>\<open>composer.json\<close> with
  \<^verbatim>\<open>json.load(loc, object_pairs_hook=OrderedDict)\<close>, so the values that
  \<^verbatim>\<open>build_package\<close> and the mappers see are \<^verbatim>\<open>None\<close>, booleans, numbers,
  unicode strings, lists and \<^verbatim>\<open>OrderedDict\<close>s.  An object is kept as the list of pairs
  the decoder hands to \<^verbatim>\<open>OrderedDict\<close>, in document order.  A float is its mantissa and
  binary exponent; only whether it is zero is ever looked at.  Characters are the 8-bit
  characters of HOL.
\<close>

datatype json =
    JNull
  | JBool bool
  | JInt int
  | JFloat int int
  | JStr string
  | JList "json list"
  | JObj "(string \<times> json) list"

datatype error =
    AttributeError string
  | TypeError string
  | KeyError string
  | ValueError string
  | ModelConversionError "string list"
  | ExternalError string

text \<open>Truth value of a Python object, as tested by \<^verbatim>\<open>if value:\<close>.\<close>

fun truthy :: "json \<Rightarrow> bool" where
  "truthy JNull = False"
| "truthy (JBool b) = b"
| "truthy (JInt i) = (i \<noteq> 0)"
| "truthy (JFloat m e) = (m \<noteq> 0)"
| "truthy (JStr s) = (s \<noteq> [])"
| "truthy (JList xs) = (xs \<noteq> [])"
| "truthy (JObj ps) = (ps \<noteq> [])"

subsection \<open>OrderedDict\<close>

text \<open>
  \<^verbatim>\<open>OrderedDict(pairs)\<close> stores the pairs one after the other: a key seen before keeps
  its place and takes the new value.
\<close>

fun od_set :: "(string \<times> 'v) list \<Rightarrow> string \<Rightarrow> 'v \<Rightarrow> (string \<times> 'v) list" where
  "od_set [] k v = [(k, v)]"
| "od_set ((k', v') # r) k v = (if k' = k then (k, v) # r else (k', v') # od_set r k v)"

definition OrderedDict :: "(string \<times> 'v) list \<Rightarrow> (string \<times> 'v) list" where
  "OrderedDict ps = foldl (\<lambda>d (k, v). od_set d k v) [] ps"

text \<open>\<^verbatim>\<open>d.items()\<close> and \<^verbatim>\<open>d.get(k)\<close>, the latter with \<^verbatim>\<open>None\<close> for a missing key.\<close>

definition od_items :: "(string \<times> json) list \<Rightarrow> (string \<times> json) list" where
  "od_items ps = OrderedDict ps"

definition od_get :: "(string \<times> json) list \<Rightarrow> string \<Rightarrow> json" where
  "od_get ps k = (case map_of (OrderedDict ps) k of None \<Rightarrow> JNull | Some v \<Rightarrow> v)"

subsection \<open>Unicode string methods\<close>

text \<open>
  \<^verbatim>\<open>unicode.strip()\<close> removes leading and trailing whitespace; below code point 256 the
  whitespace characters are 9 to 13, 28 to 32, 133 and 160.  \<^verbatim>\<open>strip(chars)\<close> removes the
  given characters instead.
\<close>

definition isspace :: "char \<Rightarrow> bool" where
  "isspace c = (let n = (of_char c :: nat) in
     (9 \<le> n \<and> n \<le> 13) \<or> (28 \<le> n \<and> n \<le> 32) \<or> n = 133 \<or> n = 160)"

definition strip_with :: "(char \<Rightarrow> bool) \<Rightarrow> string \<Rightarrow> string" where
  "strip_with P s = rev (dropWhile P (rev (dropWhile P s)))"

definition strip :: "string \<Rightarrow> string" where
  "strip s = strip_with isspace s"

definition strip_chars :: "string \<Rightarrow> string \<Rightarrow> string" where
  "strip_chars chars s = strip_with (\<lambda>c. c \<in> set chars) s"

definition startswith :: "string \<Rightarrow> string \<Rightarrow> bool" where
  "startswith s p = (take (length p) s = p)"

text \<open>\<^verbatim>\<open>sub in s\<close> on strings: \<open>sub\<close> occurs somewhere in \<open>s\<close>.\<close>

fun contains :: "string \<Rightarrow> string \<Rightarrow> bool" where
  "contains [] sub = (sub = [])"
| "contains (c # cs) sub = (startswith (c # cs) sub \<or> contains cs sub)"

text \<open>\<^verbatim>\<open>sep.join(xs)\<close>.\<close>

fun join :: "string \<Rightarrow> string list \<Rightarrow> string" where
  "join sep [] = []"
| "join sep [x] = x"
| "join sep (x # y # r) = x @ sep @ join sep (y # r)"

text \<open>The first component of \<^verbatim>\<open>s.partition(sep)\<close> for a one-character separator.\<close>

definition partition_head :: "string \<Rightarrow> char \<Rightarrow> string" where
  "partition_head s sep = takeWhile (\<lambda>c. c \<noteq> sep) s"

section \<open>The package model (models.py)\<close>

subsection \<open>Construction of a schematics model\<close>

text \<open>
  \<^verbatim>\<open>BaseModel.__init__(**kwargs)\<close> hands the keyword arguments to the constructor of
  schematics' \<^verbatim>\<open>Model\<close> as raw data.  That library, which models.py imports, converts
  the value of every declared field with the field type's \<^verbatim>\<open>to_native\<close> and raises
  \<^verbatim>\<open>ModelConversionError\<close> when a keyword names no declared field or a value cannot be
  converted.  For \<^verbatim>\<open>StringType\<close>, and for \<^verbatim>\<open>URLType\<close> and \<^verbatim>\<open>EmailType\<close> which
  inherit it, \<^verbatim>\<open>None\<close> and a unicode string are kept, an integer or a boolean becomes its
  \<^verbatim>\<open>str\<close>, and any other value fails.  An assignment to a field of an existing
  instance stores the value as it is.
\<close>

definition digit_char :: "nat \<Rightarrow> char" where
  "digit_char n = char_of (48 + n)"

function str_of_nat :: "nat \<Rightarrow> string" where
  "str_of_nat n = (if n < 10 then [digit_char n] else str_of_nat (n div 10) @ [digit_char (n mod 10)])"
  by pat_completeness auto
termination
  by (relation "measure (\<lambda>n. n)") auto

declare str_of_nat.simps [simp del]

definition str_of_int :: "int \<Rightarrow> string" where
  "str_of_int i = (if i < 0 then ''-'' @ str_of_nat (nat (- i)) else str_of_nat (nat i))"

definition StringType_to_native :: "json \<Rightarrow> json option" where
  "StringType_to_native v =
     (case v of
        JNull \<Rightarrow> Some JNull
      | JStr s \<Rightarrow> Some (JStr s)
      | JInt i \<Rightarrow> Some (JStr (str_of_int i))
      | JBool b \<Rightarrow> Some (JStr (if b then ''True'' else ''False''))
      | _ \<Rightarrow> None)"

text \<open>The value of a keyword argument, \<^verbatim>\<open>None\<close> when it is not given.\<close>

definition kwarg :: "(string \<times> json) list \<Rightarrow> string \<Rightarrow> json" where
  "kwarg kwargs k = (case map_of kwargs k of None \<Rightarrow> JNull | Some v \<Rightarrow> v)"

text \<open>
  The names that \<^verbatim>\<open>ModelConversionError\<close> reports for a model whose declared fields are
  all string fields: the keywords that name no field, and the fields whose value cannot
  be converted.
\<close>

definition model_errors :: "string list \<Rightarrow> (string \<times> json) list \<Rightarrow> string list" where
  "model_errors declared kwargs =
     filter (\<lambda>k. k \<notin> set declared) (map fst kwargs)
     @ filter (\<lambda>f. StringType_to_native (kwarg kwargs f) = None) declared"

definition converted :: "(string \<times> json) list \<Rightarrow> string \<Rightarrow> json" where
  "converted kwargs f =
     (case StringType_to_native (kwarg kwargs f) of None \<Rightarrow> JNull | Some v \<Rightarrow> v)"

subsection \<open>Party and packages\<close>

text \<open>
  \<^verbatim>\<open>Party\<close> declares \<^verbatim>\<open>type\<close>, \<^verbatim>\<open>name\<close>, \<^verbatim>\<open>url\<close> and \<^verbatim>\<open>email\<close>.  A field
  holds a Python value; \<open>JNull\<close> is \<^verbatim>\<open>None\<close>, the value of a field that was never
  set.
\<close>

record party =
  party_type :: json
  party_name :: json
  party_url :: json
  party_email :: json

definition Party :: "(string \<times> json) list \<Rightarrow> error + party" where
  "Party kwargs =
     (if model_errors [''type'', ''name'', ''url'', ''email''] kwargs \<noteq> []
      then Inl (ModelConversionError (model_errors [''type'', ''name'', ''url'', ''email''] kwargs))
      else Inr \<lparr>party_type = converted kwargs ''type'', party_name = converted kwargs ''name'',
                party_url = converted kwargs ''url'', party_email = converted kwargs ''email''\<rparr>)"

definition party_person :: string where
  "party_person = ''person''"

definition dep_runtime :: string where
  "dep_runtime = ''runtime''"

definition dep_dev :: string where
  "dep_dev = ''development''"

record base_package =
  type :: json
  name :: json
  version :: json
  payload_type :: json

definition BasePackage :: "(string \<times> json) list \<Rightarrow> error + base_package" where
  "BasePackage kwargs =
     (if model_errors [''type'', ''name'', ''version'', ''payload_type''] kwargs \<noteq> []
      then Inl (ModelConversionError
                  (model_errors [''type'', ''name'', ''version'', ''payload_type''] kwargs))
      else Inr \<lparr>type = converted kwargs ''type'', name = converted kwargs ''name'',
                version = converted kwargs ''version'',
                payload_type = converted kwargs ''payload_type''\<rparr>)"

text \<open>
  \<^verbatim>\<open>Package(BasePackage)\<close>.  \<open>location\<close> is the plain attribute set by
  \<^verbatim>\<open>__init__\<close>.  models.py declares seven party lists and no field or attribute
  \<^verbatim>\<open>parties\<close>.
\<close>

record package = base_package +
  location :: "string option"
  primary_language :: json
  packaging :: json
  summary :: json
  description :: json
  size_bytes :: json
  release_date :: json
  authors :: "party list"
  maintainers :: "party list"
  contributors :: "party list"
  owners :: "party list"
  packagers :: "party list"
  distributors :: "party list"
  vendors :: "party list"
  pkg_keywords :: json
  keywords_doc_url :: json
  homepage_url :: json
  download_urls :: "string list"
  download_sha1 :: json
  download_sha256 :: json
  download_md5 :: json
  bug_tracking_url :: json
  support_contacts :: "string list"
  code_view_url :: json
  vcs_tool :: json
  vcs_repository :: json
  vcs_revision :: json
  copyrights :: "string list"
  asserted_license :: json
  license_expression :: json
  license_texts :: "string list"
  notice_text :: json
  dependencies :: "string \<rightharpoonup> base_package list"
  related_packages :: "base_package list"

definition VCS_CHOICES :: "string list" where
  "VCS_CHOICES = [''git'', ''svn'', ''hg'', ''bzr'', ''cvs'']"

text \<open>
  A new \<^verbatim>\<open>PHPComposerPackage()\<close>: the class sets the defaults of \<^verbatim>\<open>type\<close> and
  \<^verbatim>\<open>primary_language\<close>, the list fields and \<^verbatim>\<open>dependencies\<close> start empty, every other
  field is \<^verbatim>\<open>None\<close>.
\<close>

definition PHPComposerPackage :: package where
  "PHPComposerPackage = \<lparr>
     type = JStr ''phpcomposer'', name = JNull, version = JNull, payload_type = JNull,
     location = None, primary_language = JStr ''PHP'', packaging = JNull, summary = JNull,
     description = JNull, size_bytes = JNull, release_date = JNull,
     authors = [], maintainers = [], contributors = [], owners = [], packagers = [],
     distributors = [], vendors = [],
     pkg_keywords = JList [], keywords_doc_url = JNull, homepage_url = JNull,
     download_urls = [], download_sha1 = JNull, download_sha256 = JNull, download_md5 = JNull,
     bug_tracking_url = JNull, support_contacts = [], code_view_url = JNull,
     vcs_tool = JNull, vcs_repository = JNull, vcs_revision = JNull, copyrights = [],
     asserted_license = JNull, license_expression = JNull, license_texts = [],
     notice_text = JNull, dependencies = Map.empty, related_packages = [] \<rparr>"

text \<open>
  \<^verbatim>\<open>package.parties\<close>, which phpcomposer.py reads: no package has this attribute, so
  the lookup raises \<^verbatim>\<open>AttributeError\<close>.
\<close>

definition getattr_parties :: "package \<Rightarrow> error + party list" where
  "getattr_parties package = Inl (AttributeError ''parties'')"

subsection \<open>Version comparison and sort key\<close>

text \<open>
  \<^verbatim>\<open>component_version\<close> is a property that returns \<^verbatim>\<open>self.version\<close>.
  \<^verbatim>\<open>compare_version\<close> writes \<^verbatim>\<open>self.component_version()\<close>, which calls that value:
  none of the values a field holds is callable.
\<close>

definition component_version :: "package \<Rightarrow> json" where
  "component_version self = version self"

definition call_value :: "json \<Rightarrow> error + json" where
  "call_value v = Inl (TypeError ''object is not callable'')"

text \<open>\<^verbatim>\<open>component_level and f() or d\<close>.\<close>

definition and_call_or :: "bool \<Rightarrow> json \<Rightarrow> json \<Rightarrow> error + json" where
  "and_call_or component_level f d =
     (if component_level
      then (case call_value f of
              Inl e \<Rightarrow> Inl e
            | Inr t \<Rightarrow> Inr (if truthy t then t else d))
      else Inr d)"

text \<open>
  \<^verbatim>\<open>
  x = component_level and self.component_version() or self.version
  y = component_level and other.component_version() or self.version
  return cmp(x, y)
  \<close>
  The builtin \<^verbatim>\<open>cmp\<close> is a parameter.
\<close>

definition compare_version ::
  "(json \<Rightarrow> json \<Rightarrow> int) \<Rightarrow> package \<Rightarrow> package \<Rightarrow> bool \<Rightarrow> error + int" where
  "compare_version cmp self other component_level =
     (case and_call_or component_level (component_version self) (version self) of
        Inl e \<Rightarrow> Inl e
      | Inr x \<Rightarrow>
          (case and_call_or component_level (component_version other) (version self) of
             Inl e \<Rightarrow> Inl e
           | Inr y \<Rightarrow> Inr (cmp x y)))"

text \<open>
  \<^verbatim>\<open>return (self.type, self.name, self.version.sortable(self.version),)\<close>.
  The attribute \<^verbatim>\<open>sortable\<close> is looked up on the value of \<^verbatim>\<open>version\<close>; neither
  \<^verbatim>\<open>None\<close> nor a boolean, number, unicode string, list or \<^verbatim>\<open>OrderedDict\<close> has it.
\<close>

definition getattr_sortable :: "json \<Rightarrow> error + (json \<Rightarrow> json)" where
  "getattr_sortable v = Inl (AttributeError ''sortable'')"

definition sort_key :: "package \<Rightarrow> error + (json \<times> json \<times> json)" where
  "sort_key self =
     (case getattr_sortable (version self) of
        Inl e \<Rightarrow> Inl e
      | Inr sortable \<Rightarrow> Inr (type self, name self, sortable (version self)))"

section \<open>The Composer parser (phpcomposer.py)\<close>

text \<open>
  Two functions used by the parser are not part of it and are parameters throughout:
  the builtin \<^verbatim>\<open>repr\<close>, and \<^verbatim>\<open>parse_repo_url\<close> of \<^verbatim>\<open>packagedcode.utils\<close>, which
  may raise.
\<close>

subsection \<open>licensing_mapper\<close>

text \<open>\<^verbatim>\<open>[l.strip() for l in licenses if l and l.strip()]\<close>: only a string has \<^verbatim>\<open>strip\<close>.\<close>

fun license_entries :: "json list \<Rightarrow> error + string list" where
  "license_entries [] = Inr []"
| "license_entries (l # ls) =
     (if \<not> truthy l then license_entries ls
      else (case l of
              JStr s \<Rightarrow>
                (case license_entries ls of
                   Inl e \<Rightarrow> Inl e
                 | Inr r \<Rightarrow> Inr (if strip s \<noteq> [] then strip s # r else r))
            | _ \<Rightarrow> Inl (AttributeError ''strip'')))"

definition licensing_mapper :: "(json \<Rightarrow> string) \<Rightarrow> json \<Rightarrow> package \<Rightarrow> error + package" where
  "licensing_mapper repr licenses package =
     (if \<not> truthy licenses then Inr package
      else (case licenses of
              JList ls \<Rightarrow>
                (case license_entries ls of
                   Inl e \<Rightarrow> Inl e
                 | Inr lics \<Rightarrow> Inr (package\<lparr>asserted_license := JStr (join '' OR '' lics)\<rparr>))
            | JStr s \<Rightarrow> Inr (package\<lparr>asserted_license := JStr s\<rparr>)
            | _ \<Rightarrow> Inr (package\<lparr>asserted_license := JStr (repr licenses)\<rparr>)))"

subsection \<open>parse_person and author_mapper\<close>

text \<open>\<^verbatim>\<open>v and v.strip(...)\<close>: a falsy value is kept, a string is stripped, anything else has no \<^verbatim>\<open>strip\<close>.\<close>

definition and_strip :: "(char \<Rightarrow> bool) \<Rightarrow> json \<Rightarrow> error + json" where
  "and_strip P v =
     (if \<not> truthy v then Inr v
      else (case v of
              JStr s \<Rightarrow> Inr (JStr (strip_with P s))
            | _ \<Rightarrow> Inl (AttributeError ''strip'')))"

text \<open>The tuple \<^verbatim>\<open>parse_person\<close> yields for one person; only an \<^verbatim>\<open>OrderedDict\<close> has \<^verbatim>\<open>get\<close>.\<close>

definition person_tuple :: "json \<Rightarrow> error + (json \<times> json \<times> json \<times> json)" where
  "person_tuple person =
     (case person of
        JObj d \<Rightarrow>
          (case and_strip isspace (od_get d ''name'') of
             Inl e \<Rightarrow> Inl e
           | Inr pname \<Rightarrow>
          (case and_strip isspace (od_get d ''role'') of
             Inl e \<Rightarrow> Inl e
           | Inr role \<Rightarrow>
          (case and_strip (\<lambda>c. c \<in> set ''<> '') (od_get d ''email'') of
             Inl e \<Rightarrow> Inl e
           | Inr email \<Rightarrow>
          (case and_strip (\<lambda>c. c \<in> set ''() '') (od_get d ''homepage'') of
             Inl e \<Rightarrow> Inl e
           | Inr url \<Rightarrow> Inr (pname, role, email, url)))))
      | _ \<Rightarrow> Inl (AttributeError ''get''))"

text \<open>
  The loop of \<^verbatim>\<open>author_mapper\<close> over the generator, with the body
  \<^verbatim>\<open>package.parties.append(models.Party(type=models.party_person, name=name, role=role, email=email, url=url))\<close>:
  the next tuple is computed, then \<^verbatim>\<open>package.parties\<close> is looked up, then the party is
  built and appended to the list found there, which is no declared field of the package.
\<close>

fun add_persons :: "json list \<Rightarrow> package \<Rightarrow> error + package" where
  "add_persons [] package = Inr package"
| "add_persons (person # persons) package =
     (case person_tuple person of
        Inl e \<Rightarrow> Inl e
      | Inr (pname, role, email, url) \<Rightarrow>
          (case getattr_parties package of
             Inl e \<Rightarrow> Inl e
           | Inr ps \<Rightarrow>
               (case Party [(''type'', JStr party_person), (''name'', pname), (''role'', role),
                            (''email'', email), (''url'', url)] of
                  Inl e \<Rightarrow> Inl e
                | Inr p \<Rightarrow> add_persons persons package)))"

definition author_mapper :: "(json \<Rightarrow> string) \<Rightarrow> json \<Rightarrow> package \<Rightarrow> error + package" where
  "author_mapper repr authors_content package =
     (case authors_content of
        JList persons \<Rightarrow> add_persons persons package
      | _ \<Rightarrow> Inl (ValueError (''Incorrect PHP composer persons: '' @ repr authors_content)))"

subsection \<open>support_mapper\<close>

text \<open>\<^verbatim>\<open>v or None\<close>.\<close>

definition or_None :: "json \<Rightarrow> json" where
  "or_None v = (if truthy v then v else JNull)"

definition support_mapper :: "json \<Rightarrow> package \<Rightarrow> error + package" where
  "support_mapper support package =
     (case support of
        JObj d \<Rightarrow>
          Inr (package\<lparr>bug_tracking_url := or_None (od_get d ''issues''),
                       code_view_url := or_None (od_get d ''source'')\<rparr>)
      | _ \<Rightarrow> Inl (AttributeError ''get''))"

subsection \<open>vendor_mapper\<close>

text \<open>\<^verbatim>\<open>'/' in name\<close>: a substring test on a string, membership in a list, a key test on a mapping.\<close>

definition slash_in :: "json \<Rightarrow> error + bool" where
  "slash_in v =
     (case v of
        JStr s \<Rightarrow> Inr (CHR ''/'' \<in> set s)
      | JList xs \<Rightarrow> Inr (JStr ''/'' \<in> set xs)
      | JObj ps \<Rightarrow> Inr (''/'' \<in> set (map fst ps))
      | _ \<Rightarrow> Inl (TypeError ''argument is not iterable''))"

definition vendor_mapper :: "package \<Rightarrow> error + package" where
  "vendor_mapper package =
     (if \<not> truthy (name package) then Inr package
      else (case slash_in (name package) of
              Inl e \<Rightarrow> Inl e
            | Inr found \<Rightarrow>
                (if \<not> found then Inr package
                 else (case name package of
                         JStr s \<Rightarrow>
                           (let vendor = partition_head s (CHR ''/'') in
                            if vendor \<noteq> []
                            then (case getattr_parties package of
                                    Inl e \<Rightarrow> Inl e
                                  | Inr ps \<Rightarrow>
                                      (case Party [(''name'', JStr vendor),
                                                   (''role'', JStr ''vendor'')] of
                                         Inl e \<Rightarrow> Inl e
                                       | Inr p \<Rightarrow> Inr package))
                            else Inr package)
                       | _ \<Rightarrow> Inl (AttributeError ''partition'')))))"

subsection \<open>repository_mapper\<close>

text \<open>
  The body of the loop over \<^verbatim>\<open>repos\<close>.  \<^verbatim>\<open>repo.get\<close> needs a mapping and
  \<^verbatim>\<open>repo_url.startswith\<close> a string.
\<close>

definition repo_step ::
  "(string \<Rightarrow> error + json) \<Rightarrow> json \<Rightarrow> package \<Rightarrow> error + package" where
  "repo_step parse_repo_url repo package =
     (case repo of
        JObj d \<Rightarrow>
          (if od_get d ''type'' = JStr ''vcs''
           then (case od_get d ''url'' of
                   JStr repo_url \<Rightarrow>
                     (let tool =
                        (if startswith repo_url ''svn'' \<or> contains repo_url ''subversion.apache.org''
                         then ''svn''
                         else if startswith repo_url ''hg'' \<or> contains repo_url ''mercurial.selenic.com''
                         then ''hg''
                         else if startswith repo_url ''fossil'' \<or> contains repo_url ''fossil-scm.org''
                         then ''fossil''
                         else ''git'')
                      in (case parse_repo_url repo_url of
                            Inl e \<Rightarrow> Inl e
                          | Inr r \<Rightarrow> Inr (package\<lparr>vcs_tool := JStr tool, vcs_repository := r\<rparr>)))
                 | _ \<Rightarrow> Inl (AttributeError ''startswith''))
           else Inr package)
      | _ \<Rightarrow> Inl (AttributeError ''get''))"

fun repo_loop ::
  "(string \<Rightarrow> error + json) \<Rightarrow> json list \<Rightarrow> package \<Rightarrow> error + package" where
  "repo_loop parse_repo_url [] package = Inr package"
| "repo_loop parse_repo_url (repo # repos) package =
     (case repo_step parse_repo_url repo package of
        Inl e \<Rightarrow> Inl e
      | Inr package' \<Rightarrow> repo_loop parse_repo_url repos package')"

definition repository_mapper ::
  "(string \<Rightarrow> error + json) \<Rightarrow> json \<Rightarrow> package \<Rightarrow> error + package" where
  "repository_mapper parse_repo_url repos package =
     (if \<not> truthy repos then Inr package
      else (case repos of
              JStr s \<Rightarrow>
                (case parse_repo_url s of
                   Inl e \<Rightarrow> Inl e
                 | Inr r \<Rightarrow> Inr (package\<lparr>vcs_repository := r\<rparr>))
            | JList rs \<Rightarrow> repo_loop parse_repo_url rs package
            | _ \<Rightarrow> Inr package))"

subsection \<open>deps_mapper\<close>

definition dep_types :: "(string \<times> string) list" where
  "dep_types = [(''dependencies'', dep_runtime), (''devDependencies'', dep_dev)]"

text \<open>
  The loop over \<^verbatim>\<open>deps.items()\<close>, which builds
  \<^verbatim>\<open>models.BasePackage(type='phpcomposer', name=name, version=version)\<close> for each item and
  stops at the first one that cannot be built.
\<close>

fun build_deps :: "(string \<times> json) list \<Rightarrow> error + base_package list" where
  "build_deps [] = Inr []"
| "build_deps ((k, v) # items) =
     (case BasePackage [(''type'', JStr ''phpcomposer''), (''name'', JStr k), (''version'', v)] of
        Inl e \<Rightarrow> Inl e
      | Inr dep \<Rightarrow>
          (case build_deps items of
             Inl e \<Rightarrow> Inl e
           | Inr deps \<Rightarrow> Inr (dep # deps)))"

definition deps_mapper :: "json \<Rightarrow> package \<Rightarrow> string \<Rightarrow> error + package" where
  "deps_mapper deps package field_name =
     (case map_of dep_types field_name of
        None \<Rightarrow> Inl (KeyError field_name)
      | Some resolved_type \<Rightarrow>
          (case deps of
             JObj d \<Rightarrow>
               (case build_deps (od_items d) of
                  Inl e \<Rightarrow> Inl e
                | Inr new_deps \<Rightarrow>
                    (case dependencies package resolved_type of
                       Some existing \<Rightarrow>
                         Inr (package\<lparr>dependencies :=
                                (dependencies package)(resolved_type \<mapsto> existing @ new_deps)\<rparr>)
                     | None \<Rightarrow>
                         Inr (package\<lparr>dependencies :=
                                (dependencies package)(resolved_type \<mapsto> new_deps)\<rparr>)))
           | _ \<Rightarrow> Inl (AttributeError ''items'')))"

definition dependencies_mapper :: "json \<Rightarrow> package \<Rightarrow> error + package" where
  "dependencies_mapper deps package = deps_mapper deps package ''dependencies''"

definition dev_dependencies_mapper :: "json \<Rightarrow> package \<Rightarrow> error + package" where
  "dev_dependencies_mapper deps package = deps_mapper deps package ''devDependencies''"

subsection \<open>build_package\<close>

definition plain_fields :: "(string \<times> string) list" where
  "plain_fields =
     [(''name'', ''name''),
      (''description'', ''summary''),
      (''keywords'', ''keywords''),
      (''version'', ''version''),
      (''homepage'', ''homepage_url'')]"

definition field_mappers ::
  "(json \<Rightarrow> string) \<Rightarrow> (string \<Rightarrow> error + json) \<Rightarrow>
   (string \<times> (json \<Rightarrow> package \<Rightarrow> error + package)) list" where
  "field_mappers repr parse_repo_url =
     [(''authors'', author_mapper repr),
      (''license'', licensing_mapper repr),
      (''require'', dependencies_mapper),
      (''require-dev'', dev_dependencies_mapper),
      (''repositories'', repository_mapper parse_repo_url),
      (''support'', support_mapper)]"

text \<open>
  \<^verbatim>\<open>setattr(package, target, value)\<close> for the targets of \<open>plain_fields\<close>; the table
  names no other attribute.
\<close>

definition setattr :: "package \<Rightarrow> string \<Rightarrow> json \<Rightarrow> package" where
  "setattr package target v =
     (if target = ''name'' then package\<lparr>name := v\<rparr>
      else if target = ''summary'' then package\<lparr>summary := v\<rparr>
      else if target = ''keywords'' then package\<lparr>pkg_keywords := v\<rparr>
      else if target = ''version'' then package\<lparr>version := v\<rparr>
      else if target = ''homepage_url'' then package\<lparr>homepage_url := v\<rparr>
      else package)"

text \<open>\<^verbatim>\<open>if isinstance(value, basestring): value = value.strip()\<close>.\<close>

definition strip_value :: "json \<Rightarrow> json" where
  "strip_value v = (case v of JStr s \<Rightarrow> JStr (strip s) | _ \<Rightarrow> v)"

fun plain_loop :: "(string \<times> json) list \<Rightarrow> (string \<times> string) list \<Rightarrow> package \<Rightarrow> package" where
  "plain_loop package_data [] package = package"
| "plain_loop package_data ((source, target) # rest) package =
     (let v = od_get package_data source in
      if truthy v
      then (let v' = strip_value v in
            if truthy v'
            then plain_loop package_data rest (setattr package target v')
            else plain_loop package_data rest package)
      else plain_loop package_data rest package)"

fun mapper_loop ::
  "(string \<times> json) list \<Rightarrow> (string \<times> (json \<Rightarrow> package \<Rightarrow> error + package)) list \<Rightarrow>
   package \<Rightarrow> error + package" where
  "mapper_loop package_data [] package = Inr package"
| "mapper_loop package_data ((source, func) # rest) package =
     (let v = od_get package_data source in
      if truthy v
      then (let v' = strip_value v in
            if truthy v'
            then (case func v' package of
                    Inl e \<Rightarrow> Inl e
                  | Inr package' \<Rightarrow> mapper_loop package_data rest package')
            else mapper_loop package_data rest package)
      else mapper_loop package_data rest package)"

definition build_package ::
  "(json \<Rightarrow> string) \<Rightarrow> (string \<Rightarrow> error + json) \<Rightarrow>
   (string \<times> json) list \<Rightarrow> string option \<Rightarrow> error + package" where
  "build_package repr parse_repo_url package_data base_dir =
     (let package = PHPComposerPackage\<lparr>location := base_dir\<rparr>;
          package = plain_loop package_data plain_fields package
      in (case mapper_loop package_data (field_mappers repr parse_repo_url) package of
            Inl e \<Rightarrow> Inl e
          | Inr package' \<Rightarrow> vendor_mapper package'))"

section \<open>Auxiliary definitions for the statements\<close>

text \<open>
  The value that \<^verbatim>\<open>build_package\<close> hands on for a manifest key, if any: the key's value
  must be truthy, a string is stripped, and what remains must be truthy again.
\<close>

definition manifest_value :: "(string \<times> json) list \<Rightarrow> string \<Rightarrow> json option" where
  "manifest_value package_data source =
     (if truthy (od_get package_data source) \<and> truthy (strip_value (od_get package_data source))
      then Some (strip_value (od_get package_data source))
      else None)"

definition apply_mapper ::
  "json option \<Rightarrow> (json \<Rightarrow> package \<Rightarrow> error + package) \<Rightarrow> package \<Rightarrow> error + package" where
  "apply_mapper v func package = (case v of None \<Rightarrow> Inr package | Some v' \<Rightarrow> func v' package)"


text \<open>
  Stand-ins for the two parameters, used to run the parser on concrete manifests: the
  textual representation of \<^verbatim>\<open>None\<close> and of the booleans, and a
  \<^verbatim>\<open>parse_repo_url\<close> that returns the URL it is given.
\<close>

definition repr_sample :: "json \<Rightarrow> string" where
  "repr_sample v =
     (case v of
        JNull \<Rightarrow> ''None''
      | JBool b \<Rightarrow> (if b then ''True'' else ''False'')
      | _ \<Rightarrow> ''<object>'')"

definition parse_repo_url_sample :: "string \<Rightarrow> error + json" where
  "parse_repo_url_sample u = Inr (JStr u)"

section \<open>Facts about the helpers and the frame of each mapper\<close>




lemma mapper_loop_step:
  "mapper_loop d ((s, f) # rest) p =
     (case apply_mapper (manifest_value d s) f p of
        Inl e \<Rightarrow> Inl e
      | Inr p' \<Rightarrow> mapper_loop d rest p')"
  by (simp add: manifest_value_def apply_mapper_def Let_def)

lemma plain_loop_step:
  "plain_loop d ((s, t) # rest) p =
     plain_loop d rest (case manifest_value d s of None \<Rightarrow> p | Some v \<Rightarrow> setattr p t v)"
  by (simp add: manifest_value_def Let_def)

lemma build_package_Inr:
  assumes "build_package repr pru d b = Inr p"
  obtains p1 p2 p3 p4 p5 p6 where
    "apply_mapper (manifest_value d ''authors'') (author_mapper repr)
       (plain_loop d plain_fields (PHPComposerPackage\<lparr>location := b\<rparr>)) = Inr p1"
    "apply_mapper (manifest_value d ''license'') (licensing_mapper repr) p1 = Inr p2"
    "apply_mapper (manifest_value d ''require'') dependencies_mapper p2 = Inr p3"
    "apply_mapper (manifest_value d ''require-dev'') dev_dependencies_mapper p3 = Inr p4"
    "apply_mapper (manifest_value d ''repositories'') (repository_mapper pru) p4 = Inr p5"
    "apply_mapper (manifest_value d ''support'') support_mapper p5 = Inr p6"
    "vendor_mapper p6 = Inr p"
  using assms
  unfolding build_package_def field_mappers_def Let_def mapper_loop_step mapper_loop.simps
  by (auto split: sum.splits)

lemma same_asserted_license: "\<exists>x. q = q\<lparr>asserted_license := x\<rparr>"
  by (rule exI [of _ "asserted_license q"]) simp

lemma same_dependencies: "\<exists>x. q = q\<lparr>dependencies := x\<rparr>"
  by (rule exI [of _ "dependencies q"]) simp

lemma same_vcs: "\<exists>x y. q = q\<lparr>vcs_tool := x, vcs_repository := y\<rparr>"
  by (rule exI [of _ "vcs_tool q"], rule exI [of _ "vcs_repository q"]) simp

lemma repository_only: "\<exists>x y. q\<lparr>vcs_repository := r\<rparr> = q\<lparr>vcs_tool := x, vcs_repository := y\<rparr>"
  by (rule exI [of _ "vcs_tool q"], rule exI [of _ r]) simp

lemma same_support: "\<exists>x y. q = q\<lparr>bug_tracking_url := x, code_view_url := y\<rparr>"
  by (rule exI [of _ "bug_tracking_url q"], rule exI [of _ "code_view_url q"]) simp

lemma add_persons_frame: "add_persons xs q = Inr q' \<Longrightarrow> q' = q"
  by (induction xs arbitrary: q)
     (auto simp: getattr_parties_def split: sum.splits prod.splits)

lemma author_mapper_frame:
  "apply_mapper mv (author_mapper repr) q = Inr q' \<Longrightarrow> q' = q"
  by (auto simp: apply_mapper_def author_mapper_def
      dest: add_persons_frame split: option.splits json.splits)

lemma licensing_mapper_frame:
  "apply_mapper mv (licensing_mapper repr) q = Inr q' \<Longrightarrow> \<exists>x. q' = q\<lparr>asserted_license := x\<rparr>"
  by (auto simp: apply_mapper_def licensing_mapper_def same_asserted_license
      split: option.splits json.splits sum.splits if_splits)

lemma deps_mapper_frame:
  "deps_mapper v q f = Inr q' \<Longrightarrow> \<exists>x. q' = q\<lparr>dependencies := x\<rparr>"
  by (auto simp: deps_mapper_def split: option.splits json.splits sum.splits)

lemma dependencies_mapper_frame:
  "apply_mapper mv dependencies_mapper q = Inr q' \<Longrightarrow> \<exists>x. q' = q\<lparr>dependencies := x\<rparr>"
  by (auto simp: apply_mapper_def dependencies_mapper_def same_dependencies
      dest: deps_mapper_frame split: option.splits)

lemma dev_dependencies_mapper_frame:
  "apply_mapper mv dev_dependencies_mapper q = Inr q' \<Longrightarrow> \<exists>x. q' = q\<lparr>dependencies := x\<rparr>"
  by (auto simp: apply_mapper_def dev_dependencies_mapper_def same_dependencies
      dest: deps_mapper_frame split: option.splits)

lemma repo_step_frame:
  "repo_step pru r q = Inr q' \<Longrightarrow> \<exists>x y. q' = q\<lparr>vcs_tool := x, vcs_repository := y\<rparr>"
  unfolding repo_step_def Let_def
  by (auto simp: same_vcs split: json.splits if_splits sum.splits)

lemma repo_loop_frame:
  "repo_loop pru rs q = Inr q' \<Longrightarrow> \<exists>x y. q' = q\<lparr>vcs_tool := x, vcs_repository := y\<rparr>"
proof (induction rs arbitrary: q)
  case Nil
  then show ?case by (simp add: same_vcs)
next
  case (Cons r rs)
  from Cons.prems obtain q1 where s: "repo_step pru r q = Inr q1" and l: "repo_loop pru rs q1 = Inr q'"
    by (auto split: sum.splits)
  from repo_step_frame [OF s] obtain x y where "q1 = q\<lparr>vcs_tool := x, vcs_repository := y\<rparr>" by blast
  moreover from Cons.IH [OF l] obtain x' y' where "q' = q1\<lparr>vcs_tool := x', vcs_repository := y'\<rparr>" by blast
  ultimately have "q' = q\<lparr>vcs_tool := x', vcs_repository := y'\<rparr>" by simp
  then show ?case by blast
qed

lemma repository_mapper_frame:
  "apply_mapper mv (repository_mapper pru) q = Inr q' \<Longrightarrow>
   \<exists>x y. q' = q\<lparr>vcs_tool := x, vcs_repository := y\<rparr>"
  unfolding apply_mapper_def repository_mapper_def
  by (auto simp: same_vcs repository_only dest: repo_loop_frame
      split: option.splits json.splits if_splits sum.splits)

lemma support_mapper_frame:
  "apply_mapper mv support_mapper q = Inr q' \<Longrightarrow>
   \<exists>x y. q' = q\<lparr>bug_tracking_url := x, code_view_url := y\<rparr>"
  unfolding apply_mapper_def support_mapper_def
  by (auto simp: same_support split: option.splits json.splits)

lemma vendor_mapper_frame: "vendor_mapper q = Inr q' \<Longrightarrow> q' = q"
  unfolding vendor_mapper_def Let_def
  by (auto simp: getattr_parties_def split: if_splits sum.splits json.splits)

lemma plain_loop_asserted_license: "asserted_license (plain_loop d fs p) = asserted_license p"
  by (induction d fs p rule: plain_loop.induct) (simp_all add: Let_def setattr_def)

lemma strip_Nil: "strip [] = []"
  by (simp add: strip_def strip_with_def)

lemma license_entries_Inr:
  "license_entries ls = Inr r \<Longrightarrow> r = [strip s. JStr s \<leftarrow> ls, strip s \<noteq> []]"
proof (induction ls arbitrary: r)
  case Nil
  then show ?case by simp
next
  case (Cons l ls)
  show ?case
  proof (cases l)
    case (JStr s)
    show ?thesis
    proof (cases "s = []")
      case True
      with Cons JStr show ?thesis by (simp add: strip_Nil)
    next
      case False
      with Cons.prems JStr obtain r' where r': "license_entries ls = Inr r'"
        and r: "r = (if strip s \<noteq> [] then strip s # r' else r')"
        by (auto split: sum.splits)
      from Cons.IH [OF r'] r JStr show ?thesis by simp
    qed
  qed (use Cons in \<open>auto split: if_splits\<close>)
qed

lemma licensing_value:
  assumes "apply_mapper (manifest_value d ''license'') (licensing_mapper repr) q = Inr q'"
    and "asserted_license q = JNull"
  shows "(case od_get d ''license'' of
            JStr s \<Rightarrow> asserted_license q' = (if strip s = [] then JNull else JStr (strip s))
          | JList ls \<Rightarrow>
              asserted_license q' =
                (if ls = [] then JNull
                 else JStr (join '' OR '' [strip s. JStr s \<leftarrow> ls, strip s \<noteq> []]))
          | v \<Rightarrow> asserted_license q' = (if truthy v then JStr (repr v) else JNull))"
  using assms
  by (cases "od_get d ''license''")
     (auto simp: apply_mapper_def manifest_value_def strip_value_def licensing_mapper_def
        strip_Nil dest: license_entries_Inr split: if_splits sum.splits)

text \<open>The equations that run the parser on a concrete manifest.\<close>

lemmas run_simps = build_package_def plain_fields_def field_mappers_def od_get_def
  OrderedDict_def strip_value_def strip_def strip_with_def isspace_def setattr_def
  PHPComposerPackage_def licensing_mapper_def vendor_mapper_def

section \<open>The license of a parsed manifest\<close>

text \<open>
  Claim C1, as amended.  When \<open>build_package\<close> returns a package, its
  \<open>asserted_license\<close> is determined by the manifest's \<^verbatim>\<open>license\<close> value:
  a string is recorded with its surrounding whitespace stripped, and not at all when
  nothing remains; a non-empty list is recorded as its string entries, each stripped and
  the empty ones left out, joined with \<^verbatim>\<open>" OR "\<close>; any other truthy value is recorded
  as its \<^verbatim>\<open>repr\<close>; a falsy value (a missing key, an empty list) leaves the field unset.
\<close>

theorem build_package_asserted_license:
  assumes "build_package repr parse_repo_url d b = Inr p"
  shows "(case od_get d ''license'' of
            JStr s \<Rightarrow> asserted_license p = (if strip s = [] then JNull else JStr (strip s))
          | JList ls \<Rightarrow>
              asserted_license p =
                (if ls = [] then JNull
                 else JStr (join '' OR '' [strip s. JStr s \<leftarrow> ls, strip s \<noteq> []]))
          | v \<Rightarrow> asserted_license p = (if truthy v then JStr (repr v) else JNull))"
proof -
  from assms obtain p1 p2 p3 p4 p5 p6 where
    s1: "apply_mapper (manifest_value d ''authors'') (author_mapper repr)
           (plain_loop d plain_fields (PHPComposerPackage\<lparr>location := b\<rparr>)) = Inr p1" and
    s2: "apply_mapper (manifest_value d ''license'') (licensing_mapper repr) p1 = Inr p2" and
    s3: "apply_mapper (manifest_value d ''require'') dependencies_mapper p2 = Inr p3" and
    s4: "apply_mapper (manifest_value d ''require-dev'') dev_dependencies_mapper p3 = Inr p4" and
    s5: "apply_mapper (manifest_value d ''repositories'') (repository_mapper parse_repo_url) p4 = Inr p5" and
    s6: "apply_mapper (manifest_value d ''support'') support_mapper p5 = Inr p6" and
    s7: "vendor_mapper p6 = Inr p"
    by (rule build_package_Inr)
  have "asserted_license p1 = JNull"
    using author_mapper_frame [OF s1]
    by (auto simp: plain_loop_asserted_license PHPComposerPackage_def)
  from licensing_value [OF s2 this]
  have v: "(case od_get d ''license'' of
            JStr s \<Rightarrow> asserted_license p2 = (if strip s = [] then JNull else JStr (strip s))
          | JList ls \<Rightarrow>
              asserted_license p2 =
                (if ls = [] then JNull
                 else JStr (join '' OR '' [strip s. JStr s \<leftarrow> ls, strip s \<noteq> []]))
          | v \<Rightarrow> asserted_license p2 = (if truthy v then JStr (repr v) else JNull))" .
  have "asserted_license p3 = asserted_license p2"
    using dependencies_mapper_frame [OF s3] by auto
  moreover have "asserted_license p4 = asserted_license p3"
    using dev_dependencies_mapper_frame [OF s4] by auto
  moreover have "asserted_license p5 = asserted_license p4"
    using repository_mapper_frame [OF s5] by auto
  moreover have "asserted_license p6 = asserted_license p5"
    using support_mapper_frame [OF s6] by auto
  moreover have "asserted_license p = asserted_license p6"
    using vendor_mapper_frame [OF s7] by auto
  ultimately have "asserted_license p = asserted_license p2" by simp
  with v show ?thesis by (simp split: json.splits)
qed


theorem build_package_asserted_license_witness:
  "build_package repr_sample parse_repo_url_sample
     [(''name'', JStr ''widget''), (''license'', JList [JStr ''MIT'', JStr '' '', JStr '' Apache-2.0''])] None
     = Inr (PHPComposerPackage\<lparr>name := JStr ''widget'', asserted_license := JStr ''MIT OR Apache-2.0''\<rparr>)
   \<and> asserted_license (PHPComposerPackage\<lparr>name := JStr ''widget'',
         asserted_license := JStr ''MIT OR Apache-2.0''\<rparr>) = JStr ''MIT OR Apache-2.0''"
proof -
  have run: "build_package repr_sample parse_repo_url_sample
     [(''name'', JStr ''widget''), (''license'', JList [JStr ''MIT'', JStr '' '', JStr '' Apache-2.0''])] None
     = Inr (PHPComposerPackage\<lparr>name := JStr ''widget'', asserted_license := JStr ''MIT OR Apache-2.0''\<rparr>)"
    by (simp add: run_simps slash_in_def)
  from build_package_asserted_license [OF run] run show ?thesis
    by (simp add: od_get_def OrderedDict_def strip_def strip_with_def isspace_def)
qed

text \<open>
  A license string with surrounding whitespace is not recorded verbatim, and one of
  whitespace only is dropped.
\<close>

theorem license_string_stripped_counterexample:
  "build_package repr_sample parse_repo_url_sample [(''license'', JStr '' MIT '')] None
     = Inr (PHPComposerPackage\<lparr>asserted_license := JStr ''MIT''\<rparr>)
   \<and> asserted_license (PHPComposerPackage\<lparr>asserted_license := JStr ''MIT''\<rparr>) \<noteq> JStr '' MIT ''
   \<and> build_package repr_sample parse_repo_url_sample [(''license'', JStr '' '')] None
     = Inr PHPComposerPackage
   \<and> asserted_license PHPComposerPackage = JNull"
  by (simp add: run_simps)

section \<open>The support mapper\<close>

text \<open>
  Claim C10.  Applied to a support object, \<open>support_mapper\<close> returns the package with
  \<open>bug_tracking_url\<close> set to the value of \<^verbatim>\<open>issues\<close> and \<open>code_view_url\<close> set to
  the value of \<^verbatim>\<open>source\<close>, each replaced by \<^verbatim>\<open>None\<close> when the key is missing or its
  value is falsy, whatever the two fields held before; the result is the given package
  with these two fields updated, so every other field keeps its value.
\<close>

theorem support_mapper_assigns_both:
  "support_mapper (JObj d) p =
     Inr (p\<lparr>bug_tracking_url :=
               (if truthy (od_get d ''issues'') then od_get d ''issues'' else JNull),
            code_view_url :=
               (if truthy (od_get d ''source'') then od_get d ''source'' else JNull)\<rparr>)"
  by (simp add: support_mapper_def or_None_def)

section \<open>Type and name of a parsed manifest\<close>

lemma plain_loop_type: "type (plain_loop d fs p) = type p"
  by (induction d fs p rule: plain_loop.induct) (simp_all add: Let_def setattr_def)

lemma plain_loop_name:
  "name (plain_loop d plain_fields p) =
     (case manifest_value d ''name'' of None \<Rightarrow> name p | Some v \<Rightarrow> v)"
  unfolding plain_fields_def plain_loop_step plain_loop.simps
  by (simp add: setattr_def split: option.splits)

lemma manifest_value_truthy: "manifest_value d s = Some v \<Longrightarrow> truthy v"
  by (auto simp: manifest_value_def split: if_splits)

text \<open>
  Claim C6, as amended.  Every package that \<open>build_package\<close> returns has the type
  \<^verbatim>\<open>phpcomposer\<close>, which is not empty.  Its name is the manifest's \<^verbatim>\<open>name\<close> value, a
  string stripped of surrounding whitespace, when that value is truthy before and after
  stripping; otherwise the name is unset (\<^verbatim>\<open>None\<close>).  So a name that is set is never
  empty, but a manifest without a usable name gives a package without a name.
\<close>

theorem build_package_type_and_name:
  assumes "build_package repr parse_repo_url d b = Inr p"
  shows "type p = JStr ''phpcomposer''
       \<and> name p =
           (if truthy (od_get d ''name'') \<and> truthy (strip_value (od_get d ''name''))
            then strip_value (od_get d ''name'') else JNull)
       \<and> truthy (name p) = (name p \<noteq> JNull)"
proof -
  from assms obtain p1 p2 p3 p4 p5 p6 where
    s1: "apply_mapper (manifest_value d ''authors'') (author_mapper repr)
           (plain_loop d plain_fields (PHPComposerPackage\<lparr>location := b\<rparr>)) = Inr p1" and
    s2: "apply_mapper (manifest_value d ''license'') (licensing_mapper repr) p1 = Inr p2" and
    s3: "apply_mapper (manifest_value d ''require'') dependencies_mapper p2 = Inr p3" and
    s4: "apply_mapper (manifest_value d ''require-dev'') dev_dependencies_mapper p3 = Inr p4" and
    s5: "apply_mapper (manifest_value d ''repositories'') (repository_mapper parse_repo_url) p4 = Inr p5" and
    s6: "apply_mapper (manifest_value d ''support'') support_mapper p5 = Inr p6" and
    s7: "vendor_mapper p6 = Inr p"
    by (rule build_package_Inr)
  let ?p0 = "plain_loop d plain_fields (PHPComposerPackage\<lparr>location := b\<rparr>)"
  have "type p1 = type ?p0 \<and> name p1 = name ?p0"
    using author_mapper_frame [OF s1] by auto
  moreover have "type p2 = type p1 \<and> name p2 = name p1"
    using licensing_mapper_frame [OF s2] by auto
  moreover have "type p3 = type p2 \<and> name p3 = name p2"
    using dependencies_mapper_frame [OF s3] by auto
  moreover have "type p4 = type p3 \<and> name p4 = name p3"
    using dev_dependencies_mapper_frame [OF s4] by auto
  moreover have "type p5 = type p4 \<and> name p5 = name p4"
    using repository_mapper_frame [OF s5] by auto
  moreover have "type p6 = type p5 \<and> name p6 = name p5"
    using support_mapper_frame [OF s6] by auto
  moreover have "type p = type p6 \<and> name p = name p6"
    using vendor_mapper_frame [OF s7] by auto
  ultimately have same: "type p = type ?p0" "name p = name ?p0" by simp_all
  have t: "type p = JStr ''phpcomposer''"
    by (simp add: same plain_loop_type PHPComposerPackage_def)
  have "name (PHPComposerPackage\<lparr>location := b\<rparr>) = JNull"
    by (simp add: PHPComposerPackage_def)
  then have n: "name p = (case manifest_value d ''name'' of None \<Rightarrow> JNull | Some v \<Rightarrow> v)"
    by (cases "manifest_value d ''name''") (simp_all add: same plain_loop_name)
  have "truthy (name p) = (name p \<noteq> JNull)"
    by (cases "manifest_value d ''name''") (auto simp: n dest: manifest_value_truthy)
  with t n show ?thesis by (simp add: manifest_value_def)
qed

theorem build_package_type_and_name_witness:
  "build_package repr_sample parse_repo_url_sample [(''name'', JStr '' widget '')] None
     = Inr (PHPComposerPackage\<lparr>name := JStr ''widget''\<rparr>)
   \<and> type (PHPComposerPackage\<lparr>name := JStr ''widget''\<rparr>) = JStr ''phpcomposer''
   \<and> name (PHPComposerPackage\<lparr>name := JStr ''widget''\<rparr>) = JStr ''widget''"
proof -
  have run: "build_package repr_sample parse_repo_url_sample [(''name'', JStr '' widget '')] None
     = Inr (PHPComposerPackage\<lparr>name := JStr ''widget''\<rparr>)"
    by (simp add: run_simps slash_in_def)
  from build_package_type_and_name [OF run] run show ?thesis
    by (simp add: od_get_def OrderedDict_def strip_value_def strip_def strip_with_def isspace_def)
qed

text \<open>A manifest without \<^verbatim>\<open>name\<close> is parsed into a package whose name is unset.\<close>

theorem manifest_without_name_counterexample:
  "build_package repr_sample parse_repo_url_sample [(''description'', JStr ''A library'')] None
     = Inr (PHPComposerPackage\<lparr>summary := JStr ''A library''\<rparr>)
   \<and> name (PHPComposerPackage\<lparr>summary := JStr ''A library''\<rparr>) = JNull
   \<and> \<not> truthy (name (PHPComposerPackage\<lparr>summary := JStr ''A library''\<rparr>))"
  by (simp add: run_simps)

section \<open>The VCS tool and its declared choices\<close>

text \<open>
  Claim C7.  \<^verbatim>\<open>vcs_tool\<close> is declared with \<^verbatim>\<open>choices=VCS_CHOICES\<close>, that is git,
  svn, hg, bzr or cvs.  For a manifest whose repositories hold a vcs entry with a URL that
  starts with \<^verbatim>\<open>fossil\<close>, the parser either fails in \<^verbatim>\<open>parse_repo_url\<close> or returns a
  package whose \<open>vcs_tool\<close> is \<^verbatim>\<open>fossil\<close>, which is not one of the declared choices.
\<close>

theorem fossil_vcs_tool_outside_choices:
  "build_package repr parse_repo_url
     [(''repositories'',
       JList [JObj [(''type'', JStr ''vcs''), (''url'', JStr ''fossil://example.org/repo'')]])]
     None
   = (case parse_repo_url ''fossil://example.org/repo'' of
        Inl e \<Rightarrow> Inl e
      | Inr r \<Rightarrow> Inr (PHPComposerPackage\<lparr>vcs_tool := JStr ''fossil'', vcs_repository := r\<rparr>))
   \<and> ''fossil'' \<notin> set VCS_CHOICES"
  by (simp add: run_simps repository_mapper_def repo_step_def startswith_def VCS_CHOICES_def
      split: sum.splits)

section \<open>Version comparison and sort key of a package\<close>

text \<open>
  Claim C3.  Without \<^verbatim>\<open>component_level\<close>, \<open>compare_version\<close> returns the result of
  comparing the version of the first package with itself, whatever the other package is;
  with \<^verbatim>\<open>component_level\<close> it raises a \<^verbatim>\<open>TypeError\<close>, as it calls the value of the
  property \<^verbatim>\<open>component_version\<close>.
\<close>

theorem compare_version_compares_self:
  "compare_version cmp p q False = Inr (cmp (version p) (version p))
   \<and> compare_version cmp p q True = Inl (TypeError ''object is not callable'')"
  by (simp add: compare_version_def and_call_or_def call_value_def)

text \<open>
  Claim C8.  \<open>sort_key\<close> raises an \<^verbatim>\<open>AttributeError\<close> for every package: it looks up
  \<^verbatim>\<open>sortable\<close> on the value of \<^verbatim>\<open>version\<close>.
\<close>

theorem sort_key_raises: "sort_key p = Inl (AttributeError ''sortable'')"
  by (simp add: sort_key_def getattr_sortable_def)

section \<open>Dependencies of a parsed manifest\<close>







lemma deps_mapper_Inr:
  "deps_mapper v p f = Inr p' \<Longrightarrow> \<exists>r. v = JObj r"
  by (auto simp: deps_mapper_def split: option.splits json.splits)

lemma manifest_value_obj:
  "manifest_value d s = Some (JObj r) \<Longrightarrow> od_get d s = JObj r \<and> r \<noteq> []"
  by (auto simp: manifest_value_def strip_value_def split: if_splits json.splits)








section \<open>The VCS tool inferred from a repository URL\<close>

lemma repo_loop_append:
  "repo_loop pru (xs @ ys) p =
     (case repo_loop pru xs p of Inl e \<Rightarrow> Inl e | Inr q \<Rightarrow> repo_loop pru ys q)"
  by (induction xs arbitrary: p) (auto split: sum.splits)

lemma repo_step_other:
  "repo_step pru r p = Inr p' \<Longrightarrow> \<forall>e. r = JObj e \<longrightarrow> od_get e ''type'' \<noteq> JStr ''vcs'' \<Longrightarrow> p' = p"
  by (auto simp: repo_step_def split: json.splits if_splits)

lemma repo_loop_other:
  "repo_loop pru rs p = Inr p' \<Longrightarrow>
   \<forall>r\<in>set rs. \<forall>e. r = JObj e \<longrightarrow> od_get e ''type'' \<noteq> JStr ''vcs'' \<Longrightarrow> p' = p"
proof (induction rs arbitrary: p)
  case Nil
  then show ?case by simp
next
  case (Cons r rs)
  from Cons.prems(1) obtain q where s: "repo_step pru r p = Inr q" and l: "repo_loop pru rs q = Inr p'"
    by (auto split: sum.splits)
  from repo_step_other [OF s] Cons.prems(2) have "q = p" by simp
  moreover from Cons.IH [OF l] Cons.prems(2) have "p' = q" by simp
  ultimately show ?case by simp
qed

lemma repo_step_vcs:
  assumes "repo_step pru (JObj d) p = Inr p'"
    and "od_get d ''type'' = JStr ''vcs''" and "od_get d ''url'' = JStr u"
  shows "vcs_tool p' = JStr
           (if startswith u ''svn'' \<or> contains u ''subversion.apache.org'' then ''svn''
            else if startswith u ''hg'' \<or> contains u ''mercurial.selenic.com'' then ''hg''
            else if startswith u ''fossil'' \<or> contains u ''fossil-scm.org'' then ''fossil''
            else ''git'')
         \<and> pru u = Inr (vcs_repository p')"
  using assms by (auto simp: repo_step_def Let_def split: sum.splits)

lemma repository_mapper_list:
  "repository_mapper pru (JList rs) p = repo_loop pru rs p"
  by (cases rs) (simp_all add: repository_mapper_def)

lemma repo_loop_returns:
  "\<forall>r\<in>set rs. \<exists>e. r = JObj e \<and>
      (od_get e ''type'' = JStr ''vcs'' \<longrightarrow> (\<exists>u x. od_get e ''url'' = JStr u \<and> pru u = Inr x))
   \<Longrightarrow> \<exists>p'. repo_loop pru rs p = Inr p'"
proof (induction rs arbitrary: p)
  case Nil
  then show ?case by simp
next
  case (Cons r rs)
  from Cons.prems obtain e where r: "r = JObj e"
    and u: "od_get e ''type'' = JStr ''vcs'' \<longrightarrow> (\<exists>u x. od_get e ''url'' = JStr u \<and> pru u = Inr x)"
    by auto
  have "\<exists>q. repo_step pru r p = Inr q"
    using u by (auto simp: r repo_step_def Let_def)
  then obtain q where q: "repo_step pru r p = Inr q" by blast
  from Cons.IH [of q] Cons.prems obtain p' where "repo_loop pru rs q = Inr p'" by auto
  with q show ?case by simp
qed

text \<open>
  Claim C4.  For a list of repositories on which \<open>repository_mapper\<close> returns, the entry
  of type \<^verbatim>\<open>vcs\<close> that no other such entry follows decides the VCS fields: the tool is
  \<^verbatim>\<open>svn\<close> when its URL starts with \<^verbatim>\<open>svn\<close> or contains the Subversion host, otherwise
  \<^verbatim>\<open>hg\<close> when it starts with \<^verbatim>\<open>hg\<close> or contains the Mercurial host, otherwise
  \<^verbatim>\<open>fossil\<close> when it starts with \<^verbatim>\<open>fossil\<close> or contains the Fossil host, otherwise
  \<^verbatim>\<open>git\<close>; and \<open>vcs_repository\<close> is what \<^verbatim>\<open>parse_repo_url\<close> returns for that URL.
  A list without an entry of type \<^verbatim>\<open>vcs\<close> leaves the package as it was.  The mapper
  returns whenever every entry is an object and every entry of type \<^verbatim>\<open>vcs\<close> has a string
  URL that \<^verbatim>\<open>parse_repo_url\<close> accepts.
\<close>

theorem repository_mapper_vcs_tool:
  "(repository_mapper parse_repo_url (JList (pre @ JObj d # post)) p = Inr p'
      \<and> od_get d ''type'' = JStr ''vcs'' \<and> od_get d ''url'' = JStr u
      \<and> (\<forall>r\<in>set post. \<forall>e. r = JObj e \<longrightarrow> od_get e ''type'' \<noteq> JStr ''vcs'')
    \<longrightarrow> vcs_tool p' = JStr
           (if startswith u ''svn'' \<or> contains u ''subversion.apache.org'' then ''svn''
            else if startswith u ''hg'' \<or> contains u ''mercurial.selenic.com'' then ''hg''
            else if startswith u ''fossil'' \<or> contains u ''fossil-scm.org'' then ''fossil''
            else ''git'')
        \<and> parse_repo_url u = Inr (vcs_repository p'))
   \<and> (repository_mapper parse_repo_url (JList rs) p = Inr p''
      \<and> (\<forall>r\<in>set rs. \<forall>e. r = JObj e \<longrightarrow> od_get e ''type'' \<noteq> JStr ''vcs'')
    \<longrightarrow> p'' = p)
   \<and> ((\<forall>r\<in>set rs. \<exists>e. r = JObj e \<and>
          (od_get e ''type'' = JStr ''vcs'' \<longrightarrow>
             (\<exists>u x. od_get e ''url'' = JStr u \<and> parse_repo_url u = Inr x)))
    \<longrightarrow> (\<exists>q. repository_mapper parse_repo_url (JList rs) p = Inr q))"
proof (intro conjI impI)
  assume a: "repository_mapper parse_repo_url (JList (pre @ JObj d # post)) p = Inr p'
      \<and> od_get d ''type'' = JStr ''vcs'' \<and> od_get d ''url'' = JStr u
      \<and> (\<forall>r\<in>set post. \<forall>e. r = JObj e \<longrightarrow> od_get e ''type'' \<noteq> JStr ''vcs'')"
  then have "repo_loop parse_repo_url (pre @ [JObj d] @ post) p = Inr p'"
    by (simp add: repository_mapper_list)
  then obtain q1 q2 where "repo_loop parse_repo_url pre p = Inr q1"
    and s: "repo_step parse_repo_url (JObj d) q1 = Inr q2"
    and l: "repo_loop parse_repo_url post q2 = Inr p'"
    by (auto simp: repo_loop_append split: sum.splits)
  from repo_loop_other [OF l] a have "p' = q2" by blast
  with repo_step_vcs [OF s] a
  show "vcs_tool p' = JStr
           (if startswith u ''svn'' \<or> contains u ''subversion.apache.org'' then ''svn''
            else if startswith u ''hg'' \<or> contains u ''mercurial.selenic.com'' then ''hg''
            else if startswith u ''fossil'' \<or> contains u ''fossil-scm.org'' then ''fossil''
            else ''git'')"
    and "parse_repo_url u = Inr (vcs_repository p')"
    by simp_all
next
  assume "repository_mapper parse_repo_url (JList rs) p = Inr p''
      \<and> (\<forall>r\<in>set rs. \<forall>e. r = JObj e \<longrightarrow> od_get e ''type'' \<noteq> JStr ''vcs'')"
  then show "p'' = p"
    using repo_loop_other [of parse_repo_url rs p p''] by (simp add: repository_mapper_list)
next
  assume "\<forall>r\<in>set rs. \<exists>e. r = JObj e \<and>
          (od_get e ''type'' = JStr ''vcs'' \<longrightarrow>
             (\<exists>u x. od_get e ''url'' = JStr u \<and> parse_repo_url u = Inr x))"
  from repo_loop_returns [OF this]
  show "\<exists>q. repository_mapper parse_repo_url (JList rs) p = Inr q"
    by (simp add: repository_mapper_list)
qed


theorem repository_mapper_vcs_tool_witness:
  "repository_mapper parse_repo_url_sample
     (JList [JObj [(''type'', JStr ''composer''), (''url'', JStr ''http://packages.example.com'')],
             JObj [(''type'', JStr ''vcs''), (''url'', JStr ''https://github.com/x/y'')],
             JObj [(''type'', JStr ''pear''), (''url'', JStr ''https://pear2.php.net'')]])
     PHPComposerPackage
   = Inr (PHPComposerPackage\<lparr>vcs_tool := JStr ''git'',
            vcs_repository := JStr ''https://github.com/x/y''\<rparr>)
   \<and> vcs_tool (PHPComposerPackage\<lparr>vcs_tool := JStr ''git'',
            vcs_repository := JStr ''https://github.com/x/y''\<rparr>) = JStr ''git''
   \<and> repository_mapper parse_repo_url_sample
     (JList [JObj [(''type'', JStr ''vcs''), (''url'', JStr ''svn://example.org/repo'')]])
     PHPComposerPackage
   = Inr (PHPComposerPackage\<lparr>vcs_tool := JStr ''svn'',
            vcs_repository := JStr ''svn://example.org/repo''\<rparr>)"
proof -
  let ?pre = "[JObj [(''type'', JStr ''composer''), (''url'', JStr ''http://packages.example.com'')]]"
  let ?d = "[(''type'', JStr ''vcs''), (''url'', JStr ''https://github.com/x/y'')]"
  let ?post = "[JObj [(''type'', JStr ''pear''), (''url'', JStr ''https://pear2.php.net'')]]"
  let ?q = "PHPComposerPackage\<lparr>vcs_tool := JStr ''git'',
            vcs_repository := JStr ''https://github.com/x/y''\<rparr>"
  have run: "repository_mapper parse_repo_url_sample (JList (?pre @ JObj ?d # ?post))
               PHPComposerPackage = Inr ?q"
    by (simp add: repository_mapper_def repo_step_def od_get_def OrderedDict_def startswith_def
        parse_repo_url_sample_def)
  have h: "od_get ?d ''type'' = JStr ''vcs''" "od_get ?d ''url'' = JStr ''https://github.com/x/y''"
    "\<forall>r\<in>set ?post. \<forall>e. r = JObj e \<longrightarrow> od_get e ''type'' \<noteq> JStr ''vcs''"
    by (simp_all add: od_get_def OrderedDict_def)
  have "vcs_tool ?q = JStr
           (if startswith ''https://github.com/x/y'' ''svn''
               \<or> contains ''https://github.com/x/y'' ''subversion.apache.org'' then ''svn''
            else if startswith ''https://github.com/x/y'' ''hg''
               \<or> contains ''https://github.com/x/y'' ''mercurial.selenic.com'' then ''hg''
            else if startswith ''https://github.com/x/y'' ''fossil''
               \<or> contains ''https://github.com/x/y'' ''fossil-scm.org'' then ''fossil''
            else ''git'')"
    using repository_mapper_vcs_tool [where pre = ?pre and d = ?d and post = ?post
        and p = PHPComposerPackage and p' = ?q and u = "''https://github.com/x/y''"
        and parse_repo_url = parse_repo_url_sample and rs = "[]" and p'' = PHPComposerPackage]
      run h by blast
  then have git: "vcs_tool ?q = JStr ''git''" by (simp add: startswith_def)
  have svn: "repository_mapper parse_repo_url_sample
     (JList [JObj [(''type'', JStr ''vcs''), (''url'', JStr ''svn://example.org/repo'')]])
     PHPComposerPackage
   = Inr (PHPComposerPackage\<lparr>vcs_tool := JStr ''svn'',
            vcs_repository := JStr ''svn://example.org/repo''\<rparr>)"
    by (simp add: repository_mapper_def repo_step_def od_get_def OrderedDict_def startswith_def
        parse_repo_url_sample_def)
  from run git svn show ?thesis by simp
qed

section \<open>The authors mapper\<close>

text \<open>
  Claim C5.  For a list with one author object, \<open>author_mapper\<close> adds no party: it
  raises \<^verbatim>\<open>AttributeError\<close> at \<^verbatim>\<open>package.parties\<close>, whatever the package is, and so does
  \<open>build_package\<close> for a manifest with these authors.  The party it goes on to build
  could not be built either: \<^verbatim>\<open>Party\<close> declares no field \<^verbatim>\<open>role\<close>.
\<close>

theorem author_mapper_adds_no_party:
  "author_mapper repr
     (JList [JObj [(''name'', JStr ''Nils Adermann''), (''email'', JStr ''naderman@naderman.de''),
                   (''homepage'', JStr ''http://www.naderman.de''), (''role'', JStr ''Developer'')]])
     p
   = Inl (AttributeError ''parties'')
   \<and> build_package repr parse_repo_url
       [(''authors'',
         JList [JObj [(''name'', JStr ''Nils Adermann''), (''email'', JStr ''naderman@naderman.de''),
                      (''homepage'', JStr ''http://www.naderman.de''), (''role'', JStr ''Developer'')]])]
       b
   = Inl (AttributeError ''parties'')
   \<and> Party [(''type'', JStr party_person), (''name'', JStr ''Nils Adermann''),
             (''role'', JStr ''Developer''), (''email'', JStr ''naderman@naderman.de''),
             (''url'', JStr ''http://www.naderman.de'')]
   = Inl (ModelConversionError [''role''])"
  by (simp add: run_simps author_mapper_def person_tuple_def and_strip_def getattr_parties_def
      Party_def model_errors_def kwarg_def StringType_to_native_def)

end
